theory Spec2Isabelle
  imports Main
begin

section \<open>ERC-7821 \<open>execute\<close>: data model\<close>

text \<open>
  The development embeds \<^verbatim>\<open>src/experimental/erc7821/actions/execute.ts\<close>: the
  call-batch encoder \<^verbatim>\<open>encodeCalls\<close> and the action \<^verbatim>\<open>execute\<close> with its
  error resolver (the \<^verbatim>\<open>catch\<close> block).

  A \<^verbatim>\<open>Hex\<close> is a JavaScript string (\<^verbatim>\<open>`0x${string}`\<close>), an address too.
  Optional properties (\<^verbatim>\<open>x?: T | undefined\<close>) are \<open>option\<close>s; \<^verbatim>\<open>bigint\<close> is
  \<open>int\<close>.
\<close>

type_synonym hex = string
type_synonym address = string

text \<open>Values of type \<^verbatim>\<open>unknown\<close> that appear as call arguments.\<close>

datatype jsval = VStr string | VBig int | VBool bool | VArr "jsval list"

text \<open>An interface description (\<^verbatim>\<open>Abi\<close>): an array of items, kept as their signatures.\<close>

datatype abi = Abi "string list"

text \<open>
  A \<^verbatim>\<open>Call\<close>: the target \<^verbatim>\<open>to\<close>, and either \<^verbatim>\<open>abi\<close>, \<^verbatim>\<open>functionName\<close>,
  \<^verbatim>\<open>args\<close> or raw \<^verbatim>\<open>data\<close>, with an optional \<^verbatim>\<open>value\<close>.
\<close>

record call =
  call_to :: address
  call_abi :: "abi option"
  call_functionName :: "string option"
  call_args :: "jsval list option"
  call_data :: "hex option"
  call_value :: "int option"

text \<open>
  Errors are objects with an optional \<^verbatim>\<open>data\<close> property and an optional
  \<^verbatim>\<open>cause\<close>. The property \<^verbatim>\<open>data\<close> may be missing (\<^verbatim>\<open>'data' in e\<close> is false),
  present with the value \<^verbatim>\<open>undefined\<close>, or present with a \<^verbatim>\<open>Hex\<close> string.
\<close>

datatype data_prop = NoData | DataUndefined | Data hex

datatype base_error =
  BaseError (err_name: string) (err_data: data_prop) (err_cause: "base_error option")

text \<open>What \<^verbatim>\<open>execute\<close> throws: an error object passed on, or one of the two
  error classes of \<^verbatim>\<open>../errors.js\<close> that it constructs without arguments.\<close>

datatype exn =
  Err base_error
  | ExecuteUnsupportedError
  | FunctionSelectorNotRecognizedError

text \<open>One entry of the batch, as the object literal of \<^verbatim>\<open>encodeCalls\<close> builds it.\<close>

record batch_call =
  bc_data :: hex
  bc_value :: int
  bc_target :: address

text \<open>The positional values handed to \<^verbatim>\<open>AbiParameters.encode\<close>.\<close>

datatype abi_arg = ArgCalls "batch_call list" | ArgHex hex

text \<open>The parameter object read by \<^verbatim>\<open>encodeFunctionData\<close>.\<close>

record efd_params =
  ep_abi :: abi
  ep_functionName :: "string option"
  ep_args :: "jsval list option"

text \<open>The result object of \<^verbatim>\<open>decodeErrorResult\<close>.\<close>

record decoded_error =
  de_errorName :: string
  de_args :: "jsval list option"

text \<open>The second argument of \<^verbatim>\<open>getContractError\<close>.\<close>

record gce_params =
  gp_abi :: "abi option"
  gp_address :: address
  gp_args :: "jsval list option"
  gp_docsPath :: string
  gp_functionName :: "string option"

record authorization =
  auth_contractAddress :: "address option"

record client =
  client_uid :: string

text \<open>\<^verbatim>\<open>ExecuteParameters\<close>.\<close>

record parameters =
  p_authorizationList :: "authorization list option"
  p_gas :: "int option"
  p_gasPrice :: "int option"
  p_maxFeePerGas :: "int option"
  p_maxPriorityFeePerGas :: "int option"
  p_account :: "address option"
  p_chain :: "string option"
  p_address :: address
  p_calls :: "call list"
  p_opData :: "hex option"

text \<open>
  The request given to \<^verbatim>\<open>sendTransaction\<close>:
  \<^verbatim>\<open>{ ...parameters, to: parameters.address, data: ... }\<close>.
\<close>

record tx_request =
  tx_parameters :: parameters
  tx_to :: address
  tx_data :: hex

text \<open>
  The collaborators that \<^verbatim>\<open>execute.ts\<close> imports and whose code is not part of the
  file are parameters of the model, collected in one record:
  \<^item> \<open>encodeFunctionData\<close>, \<open>decodeErrorResult\<close>, \<open>getContractError\<close>,
    \<open>supportsExecutionMode\<close>, \<open>sendTransaction\<close>: the functions of these names; one
    that can throw returns \<open>Inl\<close> of the error thrown;
  \<^item> \<open>abiParameters_encode sigs vals\<close>:
    \<^verbatim>\<open>AbiParameters.encode(AbiParameters.from(sigs), vals)\<close>;
  \<^item> \<open>abiError_selector sig\<close>: \<^verbatim>\<open>AbiError.getSelector(AbiError.from(sig))\<close>;
  \<^item> \<open>const_abi\<close>, \<open>executionMode_default\<close>, \<open>executionMode_opData\<close>: the constants
    \<^verbatim>\<open>abi\<close>, \<^verbatim>\<open>executionMode.default\<close> and \<^verbatim>\<open>executionMode.opData\<close> of
    \<^verbatim>\<open>../constants.js\<close>.
\<close>

record env =
  encodeFunctionData :: "efd_params \<Rightarrow> base_error + hex"
  abiParameters_encode :: "string list \<Rightarrow> abi_arg list \<Rightarrow> base_error + hex"
  decodeErrorResult :: "abi \<Rightarrow> hex \<Rightarrow> base_error + decoded_error"
  getContractError :: "base_error \<Rightarrow> gce_params \<Rightarrow> base_error"
  abiError_selector :: "string \<Rightarrow> hex"
  supportsExecutionMode :: "client \<Rightarrow> address \<Rightarrow> hex \<Rightarrow> base_error + bool"
  sendTransaction :: "client \<Rightarrow> tx_request \<Rightarrow> base_error + hex"
  const_abi :: abi
  executionMode_default :: hex
  executionMode_opData :: hex

section \<open>JavaScript truthiness\<close>

text \<open>
  \<^verbatim>\<open>opData ? a : b\<close> on a \<^verbatim>\<open>Hex | undefined\<close>: \<^verbatim>\<open>undefined\<close> and the empty
  string are falsy, every other string is truthy, \<^verbatim>\<open>'0x'\<close> included.
\<close>

fun truthy_hex :: "hex option \<Rightarrow> bool" where
  "truthy_hex None = False"
| "truthy_hex (Some s) = (s \<noteq> [])"

text \<open>\<^verbatim>\<open>Boolean(obj)\<close> on the object returned by \<^verbatim>\<open>decodeErrorResult\<close>.\<close>

definition js_Boolean :: "decoded_error \<Rightarrow> bool" where
  "js_Boolean r = True"

section \<open>The call-batch encoder\<close>

text \<open>\<^verbatim>\<open>encodeFunctionData(call)\<close>: the function reads the interface description, the
  function name and the arguments of the object it is given.\<close>

definition encodeFunctionData_call :: "env \<Rightarrow> abi \<Rightarrow> call \<Rightarrow> base_error + hex" where
  "encodeFunctionData_call env a c =
     encodeFunctionData env
       \<lparr>ep_abi = a, ep_functionName = call_functionName c, ep_args = call_args c\<rparr>"

text \<open>\<^verbatim>\<open>call.abi ? encodeFunctionData(call) : (call.data ?? '0x')\<close>; an array is an
  object, so \<^verbatim>\<open>call.abi\<close> is truthy as soon as it is defined.\<close>

definition call_data_of :: "env \<Rightarrow> call \<Rightarrow> base_error + hex" where
  "call_data_of env c =
     (case call_abi c of
        Some a \<Rightarrow> encodeFunctionData_call env a c
      | None \<Rightarrow> Inr (case call_data c of Some d \<Rightarrow> d | None \<Rightarrow> ''0x''))"

text \<open>The body of the \<^verbatim>\<open>map\<close> callback.\<close>

definition encode_call :: "env \<Rightarrow> call \<Rightarrow> base_error + batch_call" where
  "encode_call env c =
     (case call_data_of env c of
        Inl e \<Rightarrow> Inl e
      | Inr d \<Rightarrow>
          Inr \<lparr>bc_data = d,
               bc_value = (case call_value c of Some v \<Rightarrow> v | None \<Rightarrow> 0),
               bc_target = call_to c\<rparr>)"

text \<open>\<^verbatim>\<open>Array.prototype.map\<close> with a callback that may throw: elements are visited
  from left to right and the first exception ends the traversal.\<close>

fun map_result :: "('a \<Rightarrow> 'e + 'b) \<Rightarrow> 'a list \<Rightarrow> 'e + 'b list" where
  "map_result f [] = Inr []"
| "map_result f (x # xs) =
     (case f x of
        Inl e \<Rightarrow> Inl e
      | Inr y \<Rightarrow> (case map_result f xs of Inl e \<Rightarrow> Inl e | Inr ys \<Rightarrow> Inr (y # ys)))"

text \<open>The signatures given to \<^verbatim>\<open>AbiParameters.from\<close> and the values given to
  \<^verbatim>\<open>AbiParameters.encode\<close>; the spread \<^verbatim>\<open>...(opData ? [x] : [])\<close> adds an element
  exactly when \<^verbatim>\<open>opData\<close> is truthy.\<close>

definition batch_signatures :: "hex option \<Rightarrow> string list" where
  "batch_signatures opData =
     [''struct Call { address target; uint256 value; bytes data; }'', ''Call[] calls'']
     @ (if truthy_hex opData then [''bytes opData''] else [])"

definition batch_values :: "batch_call list \<Rightarrow> hex option \<Rightarrow> abi_arg list" where
  "batch_values calls opData =
     [ArgCalls calls]
     @ (case opData of None \<Rightarrow> [] | Some d \<Rightarrow> if truthy_hex (Some d) then [ArgHex d] else [])"

text \<open>\<^verbatim>\<open>encodeCalls(calls_, opData)\<close>; the parameter \<^verbatim>\<open>calls_\<close> is \<open>calls0\<close> here.\<close>

definition encodeCalls :: "env \<Rightarrow> call list \<Rightarrow> hex option \<Rightarrow> base_error + hex" where
  "encodeCalls env calls0 opData =
     (case map_result (encode_call env) calls0 of
        Inl e \<Rightarrow> Inl e
      | Inr calls \<Rightarrow>
          abiParameters_encode env (batch_signatures opData) (batch_values calls opData))"

section \<open>The action \<open>execute\<close>\<close>

text \<open>
  The process-wide state that \<^verbatim>\<open>execute\<close> touches: the cache behind
  \<^verbatim>\<open>withCache\<close>, and the remote operations performed so far, in order.
\<close>

datatype event =
  Query client address hex
  | Send client tx_request

record world =
  cache :: "string \<Rightarrow> bool option"
  trace :: "event list"

text \<open>\<^verbatim>\<open>authorizationList?.[0]?.contractAddress ?? parameters.address\<close>\<close>

definition effective_address :: "parameters \<Rightarrow> address" where
  "effective_address parameters =
     (case p_authorizationList parameters of
        None \<Rightarrow> p_address parameters
      | Some [] \<Rightarrow> p_address parameters
      | Some (a # _) \<Rightarrow>
          (case auth_contractAddress a of
             None \<Rightarrow> p_address parameters
           | Some ca \<Rightarrow> ca))"

text \<open>\<^verbatim>\<open>opData ? executionMode.opData : executionMode.default\<close>\<close>

definition chosen_mode :: "env \<Rightarrow> hex option \<Rightarrow> hex" where
  "chosen_mode env opData =
     (if truthy_hex opData then executionMode_opData env else executionMode_default env)"

text \<open>\<^verbatim>\<open>`supportsExecutionMode.${client.uid}.${address}.${mode}`\<close>\<close>

definition cacheKey :: "client \<Rightarrow> address \<Rightarrow> hex \<Rightarrow> string" where
  "cacheKey cl address mode =
     ''supportsExecutionMode.'' @ client_uid cl @ ''.'' @ address @ ''.'' @ mode"

text \<open>The thunk \<^verbatim>\<open>() => supportsExecutionMode(client, { address, mode })\<close>: a remote
  query, recorded in the trace.\<close>

definition query_support ::
  "env \<Rightarrow> client \<Rightarrow> address \<Rightarrow> hex \<Rightarrow> world \<Rightarrow> (base_error + bool) \<times> world" where
  "query_support env cl address mode w =
     (supportsExecutionMode env cl address mode,
      w\<lparr>trace := trace w @ [Query cl address mode]\<rparr>)"

text \<open>
  Modelled from the spec: \<^verbatim>\<open>withCache\<close> of \<^verbatim>\<open>utils/promise/withCache.js\<close>, which
  is not among the sources. The spec: the cache layer "accepts (key, producer function)
  and returns the memoized result, computing on first miss"; a failure of the producer
  "propagates as-is".
\<close>

definition withCache ::
  "(world \<Rightarrow> (base_error + bool) \<times> world) \<Rightarrow> string \<Rightarrow> world \<Rightarrow> (base_error + bool) \<times> world"
  where
  "withCache fn key w =
     (case cache w key of
        Some b \<Rightarrow> (Inr b, w)
      | None \<Rightarrow>
          (case fn w of
             (Inl e, w') \<Rightarrow> (Inl e, w')
           | (Inr b, w') \<Rightarrow> (Inr b, w'\<lparr>cache := (cache w')(key \<mapsto> b)\<rparr>)))"

text \<open>The awaited probe of \<^verbatim>\<open>execute\<close>.\<close>

definition probe ::
  "env \<Rightarrow> client \<Rightarrow> address \<Rightarrow> hex \<Rightarrow> world \<Rightarrow> (base_error + bool) \<times> world" where
  "probe env cl address mode w =
     withCache (query_support env cl address mode) (cacheKey cl address mode) w"

subsection \<open>The error resolver\<close>

text \<open>The predicate \<^verbatim>\<open>(e) => 'data' in e\<close>.\<close>

fun has_data :: "base_error \<Rightarrow> bool" where
  "has_data (BaseError n NoData c) = False"
| "has_data (BaseError n DataUndefined c) = True"
| "has_data (BaseError n (Data d) c) = True"

text \<open>
  Modelled from the spec: \<^verbatim>\<open>BaseError.walk\<close> of \<^verbatim>\<open>errors/base.js\<close>, which is not
  among the sources. The spec: "walk the error's cause chain searching for the first
  error object" that satisfies the predicate, "a helper that walks the chain until a
  predicate matches or the chain ends"; the result is \<^verbatim>\<open>undefined\<close> (\<open>None\<close>) when
  the chain ends.
\<close>

fun walk :: "(base_error \<Rightarrow> bool) \<Rightarrow> base_error \<Rightarrow> base_error option" where
  "walk fn (BaseError n d c) =
     (if fn (BaseError n d c) then Some (BaseError n d c)
      else (case c of None \<Rightarrow> None | Some e' \<Rightarrow> walk fn e'))"

text \<open>
  The loop \<^verbatim>\<open>for (const c of parameters.calls)\<close> with the variable \<^verbatim>\<open>matched\<close>
  as accumulator: a call without \<^verbatim>\<open>abi\<close> is skipped, an exception of
  \<^verbatim>\<open>decodeErrorResult\<close> is swallowed by \<^verbatim>\<open>catch {}\<close>, and a successful decoding
  assigns \<^verbatim>\<open>matched = call\<close>. There is no \<^verbatim>\<open>break\<close>.
\<close>

fun match_loop :: "env \<Rightarrow> hex \<Rightarrow> call list \<Rightarrow> call option \<Rightarrow> call option" where
  "match_loop env d [] matched = matched"
| "match_loop env d (c # cs) matched =
     (case call_abi c of
        None \<Rightarrow> match_loop env d cs matched
      | Some a \<Rightarrow>
          (case decodeErrorResult env a d of
             Inl ex \<Rightarrow> match_loop env d cs matched
           | Inr r \<Rightarrow>
               if \<not> js_Boolean r then match_loop env d cs matched
               else match_loop env d cs (Some c)))"

text \<open>The argument object of \<^verbatim>\<open>getContractError\<close> for the matched call.\<close>

definition contract_error_params :: "call \<Rightarrow> gce_params" where
  "contract_error_params matched =
     \<lparr>gp_abi = call_abi matched,
      gp_address = call_to matched,
      gp_args = call_args matched,
      gp_docsPath = ''/experimental/erc7821/execute'',
      gp_functionName = call_functionName matched\<rparr>"

text \<open>\<^verbatim>\<open>AbiError.getSelector(AbiError.from('error FnSelectorNotRecognized()'))\<close>\<close>

definition sentinel :: "env \<Rightarrow> hex" where
  "sentinel env = abiError_selector env ''error FnSelectorNotRecognized()''"

text \<open>
  The \<^verbatim>\<open>catch (e)\<close> block: the value it throws, for the caught error \<open>e\<close>.
  \<^verbatim>\<open>!error?.data\<close> holds when no error of the chain has a \<^verbatim>\<open>data\<close> property, or
  when the first that has one holds \<^verbatim>\<open>undefined\<close> or the empty string.
\<close>

definition resolve :: "env \<Rightarrow> parameters \<Rightarrow> base_error \<Rightarrow> exn" where
  "resolve env parameters e =
     (case walk has_data e of
        None \<Rightarrow> Err e
      | Some error \<Rightarrow>
          (case err_data error of
             NoData \<Rightarrow> Err e
           | DataUndefined \<Rightarrow> Err e
           | Data d \<Rightarrow>
               if \<not> truthy_hex (Some d) then Err e
               else if d = sentinel env then FunctionSelectorNotRecognizedError
               else
                 (case match_loop env d (p_calls parameters) None of
                    None \<Rightarrow> Err e
                  | Some matched \<Rightarrow>
                      Err (getContractError env error (contract_error_params matched)))))"

subsection \<open>The dispatcher\<close>

text \<open>
  The \<^verbatim>\<open>try\<close> block: the evaluation of
  \<^verbatim>\<open>encodeFunctionData({ abi, functionName: 'execute', args: [mode, encodedCalls] })\<close>,
  then the call of \<^verbatim>\<open>sendTransaction\<close>, recorded in the trace. \<open>Inl e\<close> is the
  exception \<open>e\<close> that reaches \<^verbatim>\<open>catch (e)\<close>.
\<close>

definition try_block ::
  "env \<Rightarrow> client \<Rightarrow> parameters \<Rightarrow> hex \<Rightarrow> hex \<Rightarrow> world \<Rightarrow> (base_error + hex) \<times> world" where
  "try_block env cl parameters mode encodedCalls w =
     (case encodeFunctionData env
             \<lparr>ep_abi = const_abi env,
              ep_functionName = Some ''execute'',
              ep_args = Some [VStr mode, VStr encodedCalls]\<rparr> of
        Inl e \<Rightarrow> (Inl e, w)
      | Inr data \<Rightarrow>
          (let request =
                 \<lparr>tx_parameters = parameters,
                  tx_to = p_address parameters,
                  tx_data = data\<rparr>
           in (sendTransaction env cl request,
               w\<lparr>trace := trace w @ [Send cl request]\<rparr>)))"

text \<open>
  \<^verbatim>\<open>execute(client, parameters)\<close> in the world \<open>w\<close>: the value returned or thrown,
  and the world afterwards.
\<close>

definition execute :: "env \<Rightarrow> client \<Rightarrow> parameters \<Rightarrow> world \<Rightarrow> (exn + hex) \<times> world" where
  "execute env cl parameters w =
     (let calls = p_calls parameters;
          opData = p_opData parameters;
          address = effective_address parameters
      in case encodeCalls env calls opData of
           Inl e \<Rightarrow> (Inl (Err e), w)
         | Inr encodedCalls \<Rightarrow>
             (let mode = chosen_mode env opData
              in case probe env cl address mode w of
                   (Inl e, w1) \<Rightarrow> (Inl (Err e), w1)
                 | (Inr supported, w1) \<Rightarrow>
                     if \<not> supported then (Inl ExecuteUnsupportedError, w1)
                     else
                       (case try_block env cl parameters mode encodedCalls w1 of
                          (Inl e, w2) \<Rightarrow> (Inl (resolve env parameters e), w2)
                        | (Inr hash, w2) \<Rightarrow> (Inr hash, w2))))"

section \<open>Sample collaborators and inputs\<close>

text \<open>
  A concrete environment on which the theorems are instantiated. Its collaborators are
  stand-ins of the right shape: \<open>decodeErrorResult\<close> succeeds when the first ten
  characters of the data (\<^verbatim>\<open>0x\<close> and four bytes) are listed in the interface,
  \<open>supportsExecutionMode\<close> answers \<^verbatim>\<open>false\<close> for the address \<^verbatim>\<open>0xdead\<close> only, and
  \<open>sendTransaction\<close> succeeds.
\<close>

definition env0 :: env where
  "env0 =
     \<lparr>encodeFunctionData =
        (\<lambda>p. case ep_functionName p of
               None \<Rightarrow> Inl (BaseError ''AbiFunctionNotFoundError'' NoData None)
             | Some f \<Rightarrow>
                 if f = ''execute'' then Inr ''0xe9ae5c53''
                 else if f = ''transfer'' then Inr ''0xa9059cbb''
                 else Inl (BaseError ''AbiFunctionNotFoundError'' NoData None)),
      abiParameters_encode =
        (\<lambda>sigs vals. if length sigs = length vals + 1 then Inr (if length vals = 1 then ''0x20'' else ''0x40'')
                      else Inl (BaseError ''LengthMismatchError'' NoData None)),
      decodeErrorResult =
        (\<lambda>a d. case a of
                 Abi items \<Rightarrow>
                   if take 10 d \<in> set items
                   then Inr \<lparr>de_errorName = take 10 d, de_args = None\<rparr>
                   else Inl (BaseError ''AbiErrorSignatureNotFoundError'' NoData None)),
      getContractError =
        (\<lambda>err p. BaseError (''ContractFunctionExecutionError: '' @ gp_address p) NoData (Some err)),
      abiError_selector = (\<lambda>sig. ''0x3c10b94e''),
      supportsExecutionMode = (\<lambda>cl a m. Inr (a \<noteq> ''0xdead'')),
      sendTransaction = (\<lambda>cl req. Inr ''0x7a11''),
      const_abi = Abi [''function execute(bytes32 mode, bytes executionData)''],
      executionMode_default = ''0x0100000000000000000000000000000000000000000000000000000000000000'',
      executionMode_opData = ''0x0100000000007821000100000000000000000000000000000000000000000000''\<rparr>"

text \<open>A submission failure whose cause carries the revert data \<open>d\<close>.\<close>

definition revert_cause :: "hex \<Rightarrow> base_error" where
  "revert_cause d = BaseError ''RpcRequestError'' (Data d) None"

definition revert_error :: "hex \<Rightarrow> base_error" where
  "revert_error d = BaseError ''TransactionExecutionError'' NoData (Some (revert_cause d))"

text \<open>A submission failure without any \<^verbatim>\<open>data\<close> property.\<close>

definition plain_error :: base_error where
  "plain_error = BaseError ''TransactionExecutionError'' NoData None"

text \<open>The sample environment with a submission that fails with the error \<open>e\<close>, and
  with one that reverts with the data \<open>d\<close>.\<close>

definition env_fail :: "base_error \<Rightarrow> env" where
  "env_fail e = env0\<lparr>sendTransaction := (\<lambda>cl req. Inl e)\<rparr>"

definition env_revert :: "hex \<Rightarrow> env" where
  "env_revert d = env_fail (revert_error d)"

definition client0 :: client where
  "client0 = \<lparr>client_uid = ''uid0''\<rparr>"

definition world0 :: world where
  "world0 = \<lparr>cache = Map.empty, trace = []\<rparr>"

definition raw_call :: "address \<Rightarrow> hex option \<Rightarrow> int option \<Rightarrow> call" where
  "raw_call t d v =
     \<lparr>call_to = t, call_abi = None, call_functionName = None, call_args = None,
      call_data = d, call_value = v\<rparr>"

definition abi_call :: "address \<Rightarrow> abi \<Rightarrow> string \<Rightarrow> call" where
  "abi_call t a f =
     \<lparr>call_to = t, call_abi = Some a, call_functionName = Some f, call_args = Some [],
      call_data = None, call_value = None\<rparr>"

definition params0 :: "address \<Rightarrow> call list \<Rightarrow> hex option \<Rightarrow> parameters" where
  "params0 a cs od =
     \<lparr>p_authorizationList = None, p_gas = None, p_gasPrice = None, p_maxFeePerGas = None,
      p_maxPriorityFeePerGas = None, p_account = None, p_chain = None,
      p_address = a, p_calls = cs, p_opData = od\<rparr>"

text \<open>The example of the specification: two raw calls, no auxiliary data.\<close>

definition example_calls :: "call list" where
  "example_calls = [raw_call ''0xAA'' (Some ''0xdead'') None, raw_call ''0xBB'' None (Some 100)]"

text \<open>Two calls whose interfaces both declare the error with selector \<^verbatim>\<open>0x11223344\<close>.\<close>

definition token_abi :: abi where
  "token_abi = Abi [''0x11223344'', ''0xa9059cbb'']"

definition two_token_calls :: "call list" where
  "two_token_calls = [abi_call ''0x01'' token_abi ''transfer'', abi_call ''0x02'' token_abi ''transfer'']"

text \<open>Two calls whose interfaces declare the error \<^verbatim>\<open>FnSelectorNotRecognized()\<close>
  itself, by the selector that the sample environment gives it.\<close>

definition sentinel_abi :: abi where
  "sentinel_abi = Abi [''0x3c10b94e'']"

definition sentinel_calls :: "call list" where
  "sentinel_calls =
     [abi_call ''0x01'' sentinel_abi ''transfer'', abi_call ''0x02'' sentinel_abi ''transfer'']"

text \<open>A call with an interface, a call with raw data, a call with neither.\<close>

definition mixed_calls :: "call list" where
  "mixed_calls =
     [abi_call ''0x01'' token_abi ''transfer'',
      raw_call ''0xAA'' (Some ''0xdead'') None,
      raw_call ''0xBB'' None (Some 100)]"

text \<open>The entries that the \<^verbatim>\<open>map\<close> of \<open>encodeCalls\<close> builds for them.\<close>

definition mixed_entries :: "batch_call list" where
  "mixed_entries =
     [\<lparr>bc_data = ''0xa9059cbb'', bc_value = 0, bc_target = ''0x01''\<rparr>,
      \<lparr>bc_data = ''0xdead'', bc_value = 0, bc_target = ''0xAA''\<rparr>,
      \<lparr>bc_data = ''0x'', bc_value = 100, bc_target = ''0xBB''\<rparr>]"

text \<open>An invocation with an authorization list that delegates to \<^verbatim>\<open>0xC0DE\<close>.\<close>

definition params_auth :: parameters where
  "params_auth =
     (params0 ''0xE0A'' example_calls None)
       \<lparr>p_authorizationList := Some [\<lparr>auth_contractAddress = Some ''0xC0DE''\<rparr>]\<rparr>"

section \<open>Notions used in the statements\<close>

text \<open>The type \<^verbatim>\<open>Hex\<close> is \<^verbatim>\<open>`0x${string}`\<close>: a string that starts with \<^verbatim>\<open>0x\<close>.\<close>

definition is_Hex :: "string \<Rightarrow> bool" where
  "is_Hex s = (take 2 s = ''0x'')"

fun is_Hex_opt :: "hex option \<Rightarrow> bool" where
  "is_Hex_opt None = True"
| "is_Hex_opt (Some d) = is_Hex d"

text \<open>The interface declared by the call \<open>c\<close> decodes the revert data \<open>d\<close>.\<close>

definition decodes :: "env \<Rightarrow> hex \<Rightarrow> call \<Rightarrow> bool" where
  "decodes env d c =
     (case call_abi c of
        None \<Rightarrow> False
      | Some a \<Rightarrow> (case decodeErrorResult env a d of Inl ex \<Rightarrow> False | Inr r \<Rightarrow> True))"

text \<open>The cause chain of an error, the error itself first.\<close>

fun cause_chain :: "base_error \<Rightarrow> base_error list" where
  "cause_chain (BaseError n d c) =
     BaseError n d c # (case c of None \<Rightarrow> [] | Some e' \<Rightarrow> cause_chain e')"

text \<open>An error object carries revert data: its \<^verbatim>\<open>data\<close> is a non-empty string.\<close>

fun carries_data :: "base_error \<Rightarrow> bool" where
  "carries_data (BaseError n (Data d) c) = (d \<noteq> [])"
| "carries_data (BaseError n NoData c) = False"
| "carries_data (BaseError n DataUndefined c) = False"

text \<open>
  The exception that reaches \<^verbatim>\<open>catch (e)\<close> in the invocation
  \<open>execute env cl parameters w\<close>, if the invocation gets that far: the batch is encoded,
  the probe answers \<^verbatim>\<open>true\<close>, and the \<^verbatim>\<open>try\<close> block throws.
\<close>

definition caught :: "env \<Rightarrow> client \<Rightarrow> parameters \<Rightarrow> world \<Rightarrow> base_error option" where
  "caught env cl parameters w =
     (case encodeCalls env (p_calls parameters) (p_opData parameters) of
        Inl e \<Rightarrow> None
      | Inr encodedCalls \<Rightarrow>
          (case probe env cl (effective_address parameters)
                  (chosen_mode env (p_opData parameters)) w of
             (Inl e, w1) \<Rightarrow> None
           | (Inr supported, w1) \<Rightarrow>
               if \<not> supported then None
               else
                 (case try_block env cl parameters (chosen_mode env (p_opData parameters))
                         encodedCalls w1 of
                    (Inl e, w2) \<Rightarrow> Some e
                  | (Inr hash, w2) \<Rightarrow> None)))"

text \<open>The remote operations that an invocation adds to the trace.\<close>

definition new_events :: "world \<Rightarrow> world \<Rightarrow> event list" where
  "new_events w w' = drop (length (trace w)) (trace w')"

fun is_Send :: "event \<Rightarrow> bool" where
  "is_Send (Send cl req) = True"
| "is_Send (Query cl a m) = False"

text \<open>The address of a capability query, the target of a submission.\<close>

fun query_address :: "event \<Rightarrow> address option" where
  "query_address (Query cl a m) = Some a"
| "query_address (Send cl req) = None"

fun send_target :: "event \<Rightarrow> address option" where
  "send_target (Send cl req) = Some (tx_to req)"
| "send_target (Query cl a m) = None"

section \<open>Auxiliary facts\<close>

subsection \<open>The map with exceptions\<close>

lemma map_result_Inr_D: "map_result f xs = Inr ys \<Longrightarrow> map f xs = map Inr ys"
  by (induction xs arbitrary: ys) (auto split: sum.splits)

lemma map_result_length: "map_result f xs = Inr ys \<Longrightarrow> length ys = length xs"
  using map_result_Inr_D [of f xs ys] by (metis length_map)

lemma map_result_nth:
  assumes "map_result f xs = Inr ys" and "i < length xs"
  shows "f (xs ! i) = Inr (ys ! i)"
proof -
  have "map f xs ! i = map Inr ys ! i"
    using assms(1) by (simp add: map_result_Inr_D)
  moreover have "i < length ys"
    using assms by (simp add: map_result_length)
  ultimately show ?thesis
    using assms(2) by simp
qed

lemma map_result_cong:
  "(\<And>x. x \<in> set xs \<Longrightarrow> f x = g x) \<Longrightarrow> map_result f xs = map_result g xs"
  by (induction xs) (auto split: sum.splits)

subsection \<open>The encoder\<close>

lemma encode_call_Inr:
  assumes "encode_call env c = Inr b"
  shows "call_data_of env c = Inr (bc_data b)"
    and "bc_value b = (case call_value c of Some v \<Rightarrow> v | None \<Rightarrow> 0)"
    and "bc_target b = call_to c"
  using assms by (auto simp: encode_call_def split: sum.splits)

lemma encodeCalls_entries:
  assumes "map_result (encode_call env) calls0 = Inr calls"
  shows "encodeCalls env calls0 opData =
           abiParameters_encode env (batch_signatures opData) (batch_values calls opData)"
  using assms by (simp add: encodeCalls_def)

subsection \<open>The resolver\<close>

text \<open>The loop returns the last call of the list whose interface decodes the data, or
  the initial value of \<^verbatim>\<open>matched\<close> when there is none.\<close>

lemma match_loop_filter:
  "match_loop env d cs m =
     (case filter (decodes env d) cs of [] \<Rightarrow> m | x # xs \<Rightarrow> Some (last (x # xs)))"
  by (induction cs arbitrary: m)
     (auto simp: decodes_def js_Boolean_def split: option.splits sum.splits list.splits)

lemma walk_in_chain: "walk fn e = Some x \<Longrightarrow> x \<in> set (cause_chain e) \<and> fn x"
  by (induction fn e rule: walk.induct) (auto split: if_splits option.splits)

subsection \<open>The probe\<close>

lemma probe_trace:
  "trace (snd (probe env cl a m w)) =
     trace w @ (case cache w (cacheKey cl a m) of None \<Rightarrow> [Query cl a m] | Some b \<Rightarrow> [])"
  by (auto simp: probe_def withCache_def query_support_def split: option.splits sum.splits prod.splits)

subsection \<open>From the \<^verbatim>\<open>try\<close> block to the resolver\<close>

lemma execute_caught:
  "caught env cl ps w = Some e \<Longrightarrow> fst (execute env cl ps w) = Inl (resolve env ps e)"
  by (auto simp: caught_def execute_def Let_def split: sum.splits prod.splits if_splits)

lemma resolve_no_data:
  assumes "\<forall>x\<in>set (cause_chain e). \<not> carries_data x"
  shows "resolve env ps e = Err e"
proof (cases "walk has_data e")
  case None
  then show ?thesis by (simp add: resolve_def)
next
  case (Some error)
  then have "\<not> carries_data error"
    using assms walk_in_chain by blast
  then show ?thesis
    using Some by (cases error rule: carries_data.cases) (auto simp: resolve_def)
qed

lemma resolve_data:
  assumes "walk has_data e = Some error" and "err_data error = Data d"
  shows "resolve env ps e =
     (if d = [] then Err e
      else if d = sentinel env then FunctionSelectorNotRecognizedError
      else (case filter (decodes env d) (p_calls ps) of
              [] \<Rightarrow> Err e
            | x # xs \<Rightarrow> Err (getContractError env error (contract_error_params (last (x # xs))))))"
  using assms by (simp add: resolve_def match_loop_filter split: list.splits)

subsection \<open>Unfolding on concrete inputs\<close>

lemmas model_defs =
  execute_def encodeCalls_def encode_call_def call_data_of_def encodeFunctionData_call_def
  batch_signatures_def batch_values_def chosen_mode_def probe_def withCache_def
  query_support_def cacheKey_def effective_address_def try_block_def resolve_def
  sentinel_def contract_error_params_def js_Boolean_def decodes_def caught_def
  new_events_def is_Hex_def Let_def

lemmas sample_defs =
  env0_def env_fail_def env_revert_def plain_error_def revert_error_def revert_cause_def client0_def world0_def
  raw_call_def abi_call_def params0_def example_calls_def token_abi_def
  two_token_calls_def sentinel_abi_def sentinel_calls_def mixed_calls_def params_auth_def

lemma mixed_entries_ok: "map_result (encode_call env0) mixed_calls = Inr mixed_entries"
  by (simp add: model_defs sample_defs mixed_entries_def)

text \<open>The example of the specification: the entries are \<^verbatim>\<open>(0xAA, 0, 0xdead)\<close> and
  \<^verbatim>\<open>(0xBB, 100, 0x)\<close>, the mode is the default one.\<close>

lemma specification_example:
  "map_result (encode_call env0) example_calls =
     Inr [\<lparr>bc_data = ''0xdead'', bc_value = 0, bc_target = ''0xAA''\<rparr>,
          \<lparr>bc_data = ''0x'', bc_value = 100, bc_target = ''0xBB''\<rparr>]
   \<and> chosen_mode env0 None = executionMode_default env0"
  by (simp add: model_defs sample_defs)

section \<open>The error resolver: which call is reported\<close>

text \<open>
  Claim C1, as the code has it. When the \<^verbatim>\<open>try\<close> block of \<open>execute\<close> throws \<open>e\<close>,
  the first error of the cause chain with a \<^verbatim>\<open>data\<close> property holds the non-empty
  revert data \<open>d\<close>, \<open>d\<close> is not the sentinel selector of
  \<^verbatim>\<open>FnSelectorNotRecognized()\<close> (that case is decided before the loop), and \<open>ms\<close>
  are the calls, in list order, whose declared interface decodes \<open>d\<close>, one at least,
  then \<open>execute\<close> throws the result of
  \<open>getContractError\<close> for the LAST call of \<open>ms\<close>: its interface, its target, its
  arguments and its function name. The loop has no \<^verbatim>\<open>break\<close>, so every later match
  overwrites \<^verbatim>\<open>matched\<close>.
\<close>

theorem resolver_reports_last_match:
  assumes "caught env cl ps w = Some e"
    and "walk has_data e = Some error" and "err_data error = Data d"
    and "d \<noteq> []" and "d \<noteq> sentinel env"
    and "filter (decodes env d) (p_calls ps) = ms" and "ms \<noteq> []"
  shows "fst (execute env cl ps w) =
           Inl (Err (getContractError env error
             \<lparr>gp_abi = call_abi (last ms), gp_address = call_to (last ms),
              gp_args = call_args (last ms),
              gp_docsPath = ''/experimental/erc7821/execute'',
              gp_functionName = call_functionName (last ms)\<rparr>))"
proof -
  obtain x xs where ms: "ms = x # xs"
    using assms(7) by (cases ms) auto
  have "resolve env ps e = Err (getContractError env error (contract_error_params (last ms)))"
    using assms(2-6) ms by (simp add: resolve_data)
  then show ?thesis
    using assms(1) by (simp add: execute_caught contract_error_params_def)
qed

text \<open>The theorem at a submission that reverts with \<^verbatim>\<open>0x11223344\<close>, for two calls
  whose interfaces both decode it: the error names the second call, \<^verbatim>\<open>0x02\<close>.\<close>

theorem resolver_reports_last_match_witness:
  "caught (env_revert ''0x11223344'') client0 (params0 ''0xE0A'' two_token_calls None) world0
     = Some (revert_error ''0x11223344'')
   \<and> walk has_data (revert_error ''0x11223344'') = Some (revert_cause ''0x11223344'')
   \<and> filter (decodes (env_revert ''0x11223344'') ''0x11223344'')
        (p_calls (params0 ''0xE0A'' two_token_calls None)) = two_token_calls
   \<and> fst (execute (env_revert ''0x11223344'') client0
            (params0 ''0xE0A'' two_token_calls None) world0) =
       Inl (Err (BaseError ''ContractFunctionExecutionError: 0x02'' NoData
                  (Some (revert_cause ''0x11223344''))))"
  using resolver_reports_last_match
    [of "env_revert ''0x11223344''" client0 "params0 ''0xE0A'' two_token_calls None" world0
        "revert_error ''0x11223344''" "revert_cause ''0x11223344''" "''0x11223344''"
        two_token_calls]
  by (simp add: model_defs sample_defs)

text \<open>
  Claim C1 as stated fails, in two ways. Both calls of \<open>two_token_calls\<close> decode the
  revert data \<^verbatim>\<open>0x11223344\<close>, and the error thrown is the one for the second call,
  not the one for the first. And both calls of \<open>sentinel_calls\<close> decode revert data
  equal to the sentinel selector, and the error thrown is
  \<open>FunctionSelectorNotRecognizedError\<close>, which carries no call at all: the sentinel
  test comes before the loop.
\<close>

theorem first_match_counterexample:
  "decodes (env_revert ''0x11223344'') ''0x11223344'' (abi_call ''0x01'' token_abi ''transfer'')
   \<and> decodes (env_revert ''0x11223344'') ''0x11223344'' (abi_call ''0x02'' token_abi ''transfer'')
   \<and> two_token_calls = [abi_call ''0x01'' token_abi ''transfer'', abi_call ''0x02'' token_abi ''transfer'']
   \<and> fst (execute (env_revert ''0x11223344'') client0
            (params0 ''0xE0A'' two_token_calls None) world0) =
       Inl (Err (getContractError (env_revert ''0x11223344'') (revert_cause ''0x11223344'')
                  (contract_error_params (abi_call ''0x02'' token_abi ''transfer''))))
   \<and> fst (execute (env_revert ''0x11223344'') client0
            (params0 ''0xE0A'' two_token_calls None) world0) \<noteq>
       Inl (Err (getContractError (env_revert ''0x11223344'') (revert_cause ''0x11223344'')
                  (contract_error_params (abi_call ''0x01'' token_abi ''transfer''))))
   \<and> sentinel (env_revert ''0x3c10b94e'') = ''0x3c10b94e''
   \<and> decodes (env_revert ''0x3c10b94e'') ''0x3c10b94e'' (abi_call ''0x01'' sentinel_abi ''transfer'')
   \<and> decodes (env_revert ''0x3c10b94e'') ''0x3c10b94e'' (abi_call ''0x02'' sentinel_abi ''transfer'')
   \<and> sentinel_calls =
       [abi_call ''0x01'' sentinel_abi ''transfer'', abi_call ''0x02'' sentinel_abi ''transfer'']
   \<and> fst (execute (env_revert ''0x3c10b94e'') client0
            (params0 ''0xE0A'' sentinel_calls None) world0) =
       Inl FunctionSelectorNotRecognizedError"
  by (simp add: model_defs sample_defs)

section \<open>The execution mode\<close>

text \<open>
  Claim C3, as the code has it. The mode is chosen by the truthiness of
  \<^verbatim>\<open>opData\<close>: it is \<^verbatim>\<open>executionMode.default\<close> when \<^verbatim>\<open>opData\<close> is
  \<^verbatim>\<open>undefined\<close> (or the empty string, which is not a \<^verbatim>\<open>Hex\<close>), and
  \<^verbatim>\<open>executionMode.opData\<close> for every other string, the empty byte string
  \<^verbatim>\<open>'0x'\<close> included.
\<close>

theorem chosen_mode_by_presence:
  "chosen_mode env opData =
     (if opData = None \<or> opData = Some [] then executionMode_default env
      else executionMode_opData env)"
  by (cases opData) (auto simp: chosen_mode_def)

theorem chosen_mode_by_presence_witness:
  "chosen_mode env0 None = executionMode_default env0
   \<and> chosen_mode env0 (Some ''0x'') = executionMode_opData env0
   \<and> chosen_mode env0 (Some ''0xc0ffee'') = executionMode_opData env0"
  using chosen_mode_by_presence [of env0 None] chosen_mode_by_presence [of env0 "Some ''0x''"]
    chosen_mode_by_presence [of env0 "Some ''0xc0ffee''"]
  by simp

text \<open>
  Claim C3 as stated fails: for \<^verbatim>\<open>opData = '0x'\<close>, present but empty bytes, the mode
  is the one with auxiliary data, which differs from the default mode.
\<close>

theorem empty_opData_mode_counterexample:
  "chosen_mode env0 (Some ''0x'') = executionMode_opData env0
   \<and> chosen_mode env0 (Some ''0x'') \<noteq> executionMode_default env0"
  by (simp add: chosen_mode_def env0_def)

section \<open>The call-batch encoder: entries and schema\<close>

text \<open>
  Claim C10. For the empty call list and no auxiliary data, \<open>encodeCalls\<close> throws
  nothing of its own and does not consult \<open>encodeFunctionData\<close>: its result is the
  ABI encoding, by \<^verbatim>\<open>AbiParameters.encode\<close>, of the empty \<^verbatim>\<open>Call[]\<close> array under
  the schema without the trailing \<^verbatim>\<open>bytes opData\<close> field.
\<close>

theorem encodeCalls_empty:
  "encodeCalls env [] None =
     abiParameters_encode env
       [''struct Call { address target; uint256 value; bytes data; }'', ''Call[] calls'']
       [ArgCalls []]"
  by (simp add: encodeCalls_def batch_signatures_def batch_values_def)

theorem encodeCalls_empty_witness:
  "encodeCalls env0 [] None = Inr ''0x20''"
  using encodeCalls_empty [of env0] by (simp add: env0_def)

text \<open>
  Claim C4. When the \<^verbatim>\<open>map\<close> of \<open>encodeCalls\<close> completes with the entries
  \<open>calls\<close>, these are what is encoded, there is one entry per call, and the \<^verbatim>\<open>data\<close>
  of the entry at every position \<open>i\<close> is: the result of \<open>encodeFunctionData\<close> on the
  interface, function name and arguments of the call at \<open>i\<close> when that call declares
  an interface; otherwise its raw \<^verbatim>\<open>data\<close> when provided; otherwise \<^verbatim>\<open>'0x'\<close>.
\<close>

theorem encodeCalls_entry_data:
  assumes "map_result (encode_call env) calls0 = Inr calls" and "i < length calls0"
  shows "encodeCalls env calls0 opData =
           abiParameters_encode env (batch_signatures opData) (batch_values calls opData)
         \<and> length calls = length calls0
         \<and> (case call_abi (calls0 ! i) of
              Some a \<Rightarrow>
                encodeFunctionData env
                  \<lparr>ep_abi = a, ep_functionName = call_functionName (calls0 ! i),
                   ep_args = call_args (calls0 ! i)\<rparr> = Inr (bc_data (calls ! i))
            | None \<Rightarrow>
                (case call_data (calls0 ! i) of
                   Some d \<Rightarrow> bc_data (calls ! i) = d
                 | None \<Rightarrow> bc_data (calls ! i) = ''0x''))"
proof -
  have "encode_call env (calls0 ! i) = Inr (calls ! i)"
    using assms by (rule map_result_nth)
  then have "call_data_of env (calls0 ! i) = Inr (bc_data (calls ! i))"
    by (rule encode_call_Inr(1))
  then have "case call_abi (calls0 ! i) of
              Some a \<Rightarrow>
                encodeFunctionData env
                  \<lparr>ep_abi = a, ep_functionName = call_functionName (calls0 ! i),
                   ep_args = call_args (calls0 ! i)\<rparr> = Inr (bc_data (calls ! i))
            | None \<Rightarrow>
                (case call_data (calls0 ! i) of
                   Some d \<Rightarrow> bc_data (calls ! i) = d
                 | None \<Rightarrow> bc_data (calls ! i) = ''0x'')"
    by (auto simp: call_data_of_def encodeFunctionData_call_def split: option.splits)
  then show ?thesis
    using assms(1) by (simp add: encodeCalls_entries map_result_length)
qed

text \<open>The theorem on a call with an interface, a call with raw data and a call with
  neither.\<close>

theorem encodeCalls_entry_data_witness:
  "map_result (encode_call env0) mixed_calls = Inr mixed_entries
   \<and> encodeFunctionData env0
        \<lparr>ep_abi = token_abi, ep_functionName = Some ''transfer'', ep_args = Some []\<rparr>
       = Inr (bc_data (mixed_entries ! 0))
   \<and> bc_data (mixed_entries ! 1) = ''0xdead''
   \<and> bc_data (mixed_entries ! 2) = ''0x''"
  using encodeCalls_entry_data [of env0 mixed_calls mixed_entries 0 None]
    encodeCalls_entry_data [of env0 mixed_calls mixed_entries 1 None]
    encodeCalls_entry_data [of env0 mixed_calls mixed_entries 2 None]
    mixed_entries_ok
  by (simp add: sample_defs mixed_entries_def)

text \<open>
  Claim C8. For a call list whose entries \<open>calls\<close> are built, and \<^verbatim>\<open>opData\<close> of
  type \<^verbatim>\<open>Hex | undefined\<close>, what \<open>encodeCalls\<close> returns is the ABI encoding under
  the fixed schema: the struct \<^verbatim>\<open>Call { address target; uint256 value; bytes data; }\<close>,
  the array \<^verbatim>\<open>Call[] calls\<close> and, exactly when \<^verbatim>\<open>opData\<close> is present, a trailing
  \<^verbatim>\<open>bytes opData\<close> holding it. The array has one entry per call, in input order;
  the target of an entry is the \<^verbatim>\<open>to\<close> of its call and the value of an entry is
  the \<^verbatim>\<open>value\<close> of its call, 0 when the call has none.
\<close>

theorem encodeCalls_schema:
  assumes "map_result (encode_call env) calls0 = Inr calls" and "is_Hex_opt opData"
  shows "encodeCalls env calls0 opData =
           abiParameters_encode env
             ([''struct Call { address target; uint256 value; bytes data; }'', ''Call[] calls'']
              @ (case opData of None \<Rightarrow> [] | Some d \<Rightarrow> [''bytes opData'']))
             ([ArgCalls calls] @ (case opData of None \<Rightarrow> [] | Some d \<Rightarrow> [ArgHex d]))
         \<and> length calls = length calls0
         \<and> (\<forall>i<length calls0.
               bc_target (calls ! i) = call_to (calls0 ! i)
               \<and> bc_value (calls ! i) =
                   (case call_value (calls0 ! i) of Some v \<Rightarrow> v | None \<Rightarrow> 0))"
proof -
  have nonempty: "d \<noteq> []" if "opData = Some d" for d
    using assms(2) that by (auto simp: is_Hex_def)
  have sigs: "batch_signatures opData =
      [''struct Call { address target; uint256 value; bytes data; }'', ''Call[] calls'']
      @ (case opData of None \<Rightarrow> [] | Some d \<Rightarrow> [''bytes opData''])"
    using nonempty by (cases opData) (simp_all add: batch_signatures_def)
  have vals: "batch_values calls opData =
      [ArgCalls calls] @ (case opData of None \<Rightarrow> [] | Some d \<Rightarrow> [ArgHex d])"
    using nonempty by (cases opData) (simp_all add: batch_values_def)
  have entry: "bc_target (calls ! i) = call_to (calls0 ! i)
       \<and> bc_value (calls ! i) = (case call_value (calls0 ! i) of Some v \<Rightarrow> v | None \<Rightarrow> 0)"
    if "i < length calls0" for i
  proof -
    have "encode_call env (calls0 ! i) = Inr (calls ! i)"
      using assms(1) that by (rule map_result_nth)
    then show ?thesis
      by (simp add: encode_call_Inr)
  qed
  show ?thesis
    using assms(1) sigs vals entry
    by (simp add: encodeCalls_entries map_result_length)
qed

theorem encodeCalls_schema_witness:
  "map_result (encode_call env0) mixed_calls = Inr mixed_entries
   \<and> is_Hex_opt (Some ''0x'')
   \<and> encodeCalls env0 mixed_calls (Some ''0x'') =
       abiParameters_encode env0
         [''struct Call { address target; uint256 value; bytes data; }'', ''Call[] calls'',
          ''bytes opData'']
         [ArgCalls mixed_entries, ArgHex ''0x'']
   \<and> encodeCalls env0 mixed_calls None =
       abiParameters_encode env0
         [''struct Call { address target; uint256 value; bytes data; }'', ''Call[] calls'']
         [ArgCalls mixed_entries]
   \<and> map bc_target mixed_entries = map call_to mixed_calls
   \<and> map bc_value mixed_entries = [0, 0, 100]"
  using encodeCalls_schema [of env0 mixed_calls mixed_entries "Some ''0x''"]
    encodeCalls_schema [of env0 mixed_calls mixed_entries None]
    mixed_entries_ok
  by (simp add: is_Hex_def mixed_entries_def sample_defs)

text \<open>
  Claim C9. \<open>encodeCalls\<close> takes no part of the world: its result is determined by the
  call list, the auxiliary data and the answers of its two encoding collaborators. Two
  invocations on the same inputs, in environments whose \<open>encodeFunctionData\<close> agrees
  on the calls of the list and whose \<open>AbiParameters.encode\<close> is the same, return the
  same bytes (or throw the same error).
\<close>

theorem encodeCalls_deterministic:
  assumes "\<forall>c\<in>set calls0. \<forall>a. call_abi c = Some a \<longrightarrow>
             encodeFunctionData env1
               \<lparr>ep_abi = a, ep_functionName = call_functionName c, ep_args = call_args c\<rparr>
             = encodeFunctionData env2
               \<lparr>ep_abi = a, ep_functionName = call_functionName c, ep_args = call_args c\<rparr>"
    and "abiParameters_encode env1 = abiParameters_encode env2"
  shows "encodeCalls env1 calls0 opData = encodeCalls env2 calls0 opData"
proof -
  have "encode_call env1 c = encode_call env2 c" if "c \<in> set calls0" for c
    using assms(1) that
    by (auto simp: encode_call_def call_data_of_def encodeFunctionData_call_def
        split: option.splits)
  then have "map_result (encode_call env1) calls0 = map_result (encode_call env2) calls0"
    by (rule map_result_cong)
  then show ?thesis
    by (simp add: encodeCalls_def assms(2) split: sum.splits)
qed

theorem encodeCalls_deterministic_witness:
  "abiParameters_encode env0 = abiParameters_encode (env_revert ''0x11223344'')
   \<and> sendTransaction env0 \<noteq> sendTransaction (env_revert ''0x11223344'')
   \<and> encodeCalls env0 mixed_calls (Some ''0xc0ffee'')
       = encodeCalls (env_revert ''0x11223344'') mixed_calls (Some ''0xc0ffee'')"
  using encodeCalls_deterministic
    [of mixed_calls env0 "env_revert ''0x11223344''" "Some ''0xc0ffee''"]
  by (simp add: sample_defs fun_eq_iff)

section \<open>The error resolver: sentinel and unattributed failures\<close>

text \<open>
  Claim C6, as the code has it. When the \<^verbatim>\<open>try\<close> block throws \<open>e\<close> and the revert
  data found on the cause chain is EQUAL to the sentinel selector of
  \<^verbatim>\<open>FnSelectorNotRecognized()\<close> (the comparison is \<^verbatim>\<open>===\<close> on the whole string),
  \<open>execute\<close> throws \<open>FunctionSelectorNotRecognizedError\<close>, whatever the calls are;
  \<open>decodeErrorResult\<close> plays no part (it can be replaced by any \<open>der\<close>).
\<close>

theorem sentinel_raises_mode_error:
  assumes "caught env cl ps w = Some e"
    and "walk has_data e = Some error" and "err_data error = Data (sentinel env)"
    and "sentinel env \<noteq> []"
  shows "fst (execute env cl ps w) = Inl FunctionSelectorNotRecognizedError
         \<and> resolve (env\<lparr>decodeErrorResult := der\<rparr>) ps' e = FunctionSelectorNotRecognizedError"
proof -
  have "resolve env ps e = FunctionSelectorNotRecognizedError"
    using assms(2-4) by (simp add: resolve_data)
  moreover have "resolve (env\<lparr>decodeErrorResult := der\<rparr>) ps' e
      = FunctionSelectorNotRecognizedError"
    using assms(2-4) by (simp add: resolve_def sentinel_def)
  ultimately show ?thesis
    using assms(1) by (simp add: execute_caught)
qed

theorem sentinel_raises_mode_error_witness:
  "caught (env_revert ''0x3c10b94e'') client0 (params0 ''0xE0A'' two_token_calls None) world0
     = Some (revert_error ''0x3c10b94e'')
   \<and> walk has_data (revert_error ''0x3c10b94e'') = Some (revert_cause ''0x3c10b94e'')
   \<and> sentinel (env_revert ''0x3c10b94e'') = ''0x3c10b94e''
   \<and> fst (execute (env_revert ''0x3c10b94e'') client0
            (params0 ''0xE0A'' two_token_calls None) world0)
       = Inl FunctionSelectorNotRecognizedError"
  using sentinel_raises_mode_error
    [of "env_revert ''0x3c10b94e''" client0 "params0 ''0xE0A'' two_token_calls None" world0
        "revert_error ''0x3c10b94e''" "revert_cause ''0x3c10b94e''"]
  by (simp add: model_defs sample_defs)

text \<open>
  Claim C6 as stated fails: revert data whose leading four bytes are the sentinel
  selector, followed by one more byte, is not recognised; with no call to attribute it
  to, the original failure is thrown again.
\<close>

theorem leading_signature_counterexample:
  "take 10 ''0x3c10b94e00'' = sentinel (env_revert ''0x3c10b94e00'')
   \<and> caught (env_revert ''0x3c10b94e00'') client0 (params0 ''0xE0A'' example_calls None) world0
       = Some (revert_error ''0x3c10b94e00'')
   \<and> walk has_data (revert_error ''0x3c10b94e00'') = Some (revert_cause ''0x3c10b94e00'')
   \<and> err_data (revert_cause ''0x3c10b94e00'') = Data ''0x3c10b94e00''
   \<and> fst (execute (env_revert ''0x3c10b94e00'') client0
            (params0 ''0xE0A'' example_calls None) world0)
       = Inl (Err (revert_error ''0x3c10b94e00''))
   \<and> fst (execute (env_revert ''0x3c10b94e00'') client0
            (params0 ''0xE0A'' example_calls None) world0)
       \<noteq> Inl FunctionSelectorNotRecognizedError"
  by (simp add: model_defs sample_defs)

text \<open>
  Claim C7, as the code has it. When the \<^verbatim>\<open>try\<close> block throws \<open>e\<close> and either no
  error object of the cause chain carries revert data, or the revert data found is not
  the sentinel selector and no call's declared interface decodes it, \<open>execute\<close>
  throws \<open>e\<close> itself.
\<close>

theorem unattributed_failure_rethrown:
  assumes "caught env cl ps w = Some e"
    and "(\<forall>x\<in>set (cause_chain e). \<not> carries_data x)
         \<or> (walk has_data e = Some error \<and> err_data error = Data d
            \<and> d \<noteq> sentinel env \<and> \<not> list_ex (decodes env d) (p_calls ps))"
  shows "fst (execute env cl ps w) = Inl (Err e)"
proof -
  have "resolve env ps e = Err e"
    using assms(2)
  proof
    assume "\<forall>x\<in>set (cause_chain e). \<not> carries_data x"
    then show ?thesis by (rule resolve_no_data)
  next
    assume h: "walk has_data e = Some error \<and> err_data error = Data d
            \<and> d \<noteq> sentinel env \<and> \<not> list_ex (decodes env d) (p_calls ps)"
    then have "filter (decodes env d) (p_calls ps) = []"
      by (simp add: list_ex_iff filter_empty_conv)
    then show ?thesis
      using h by (simp add: resolve_data)
  qed
  then show ?thesis
    using assms(1) by (simp add: execute_caught)
qed

theorem unattributed_failure_rethrown_witness:
  "caught (env_fail plain_error) client0 (params0 ''0xE0A'' two_token_calls None) world0
     = Some plain_error
   \<and> \<not> list_ex carries_data (cause_chain plain_error)
   \<and> fst (execute (env_fail plain_error) client0
            (params0 ''0xE0A'' two_token_calls None) world0) = Inl (Err plain_error)
   \<and> caught (env_revert ''0x55667788'') client0 (params0 ''0xE0A'' two_token_calls None) world0
       = Some (revert_error ''0x55667788'')
   \<and> walk has_data (revert_error ''0x55667788'') = Some (revert_cause ''0x55667788'')
   \<and> \<not> list_ex (decodes (env_revert ''0x55667788'') ''0x55667788'') two_token_calls
   \<and> fst (execute (env_revert ''0x55667788'') client0
            (params0 ''0xE0A'' two_token_calls None) world0)
       = Inl (Err (revert_error ''0x55667788''))"
  using unattributed_failure_rethrown
    [of "env_fail plain_error" client0 "params0 ''0xE0A'' two_token_calls None" world0
        plain_error]
    unattributed_failure_rethrown
    [of "env_revert ''0x55667788''" client0 "params0 ''0xE0A'' two_token_calls None" world0
        "revert_error ''0x55667788''" "revert_cause ''0x55667788''" "''0x55667788''"]
  by (simp add: model_defs sample_defs)

text \<open>
  Claim C7 as stated fails: the sentinel selector as revert data is decoded by none of
  the declared interfaces, and yet the error thrown is
  \<open>FunctionSelectorNotRecognizedError\<close>, not the original failure.
\<close>

theorem sentinel_not_rethrown_counterexample:
  "caught (env_revert ''0x3c10b94e'') client0 (params0 ''0xE0A'' two_token_calls None) world0
     = Some (revert_error ''0x3c10b94e'')
   \<and> walk has_data (revert_error ''0x3c10b94e'') = Some (revert_cause ''0x3c10b94e'')
   \<and> err_data (revert_cause ''0x3c10b94e'') = Data ''0x3c10b94e''
   \<and> \<not> list_ex (decodes (env_revert ''0x3c10b94e'') ''0x3c10b94e'') two_token_calls
   \<and> fst (execute (env_revert ''0x3c10b94e'') client0
            (params0 ''0xE0A'' two_token_calls None) world0)
       = Inl FunctionSelectorNotRecognizedError
   \<and> fst (execute (env_revert ''0x3c10b94e'') client0
            (params0 ''0xE0A'' two_token_calls None) world0)
       \<noteq> Inl (Err (revert_error ''0x3c10b94e''))"
  by (simp add: model_defs sample_defs)

section \<open>The dispatcher: probe and submission\<close>

subsection \<open>The remote operations of an invocation\<close>

lemma probe_new_events:
  "new_events w (snd (probe env cl a m w)) =
     (case cache w (cacheKey cl a m) of None \<Rightarrow> [Query cl a m] | Some b \<Rightarrow> [])"
  by (simp add: new_events_def probe_trace)

lemma probe_no_send: "\<not> list_ex is_Send (new_events w (snd (probe env cl a m w)))"
  by (simp add: probe_new_events split: option.splits)

lemma execute_new_events:
  "new_events w (snd (execute env cl ps w)) =
     new_events w (snd (probe env cl (effective_address ps) (chosen_mode env (p_opData ps)) w))
     \<or> (fst (probe env cl (effective_address ps) (chosen_mode env (p_opData ps)) w) = Inr True
        \<and> (\<exists>d. trace (snd (execute env cl ps w)) =
              trace (snd (probe env cl (effective_address ps) (chosen_mode env (p_opData ps)) w))
              @ [Send cl \<lparr>tx_parameters = ps, tx_to = p_address ps, tx_data = d\<rparr>]))
     \<or> new_events w (snd (execute env cl ps w)) = []"
  by (auto simp: execute_def Let_def new_events_def try_block_def
      split: sum.splits prod.splits)

lemma new_events_append:
  "trace w' = trace w1 @ evs \<Longrightarrow> trace w1 = trace w @ qs \<Longrightarrow> new_events w w' = qs @ evs"
  by (simp add: new_events_def)

subsection \<open>The probe gates the submission\<close>

text \<open>
  Claim C5. In an invocation that reaches the probe (the batch is encoded) and whose
  probe answers \<^verbatim>\<open>false\<close>, \<open>execute\<close> throws \<open>ExecuteUnsupportedError\<close> and adds
  no submission to the trace. And in every invocation that submits a transaction, the
  probe has answered \<^verbatim>\<open>true\<close> and the submission is the last operation, made in the
  world that the completed probe left.
\<close>

theorem unsupported_mode_blocks_submission:
  "(encodeCalls env (p_calls ps) (p_opData ps) = Inr ec
      \<and> fst (probe env cl (effective_address ps) (chosen_mode env (p_opData ps)) w) = Inr False
    \<longrightarrow> fst (execute env cl ps w) = Inl ExecuteUnsupportedError
        \<and> \<not> list_ex is_Send (new_events w (snd (execute env cl ps w))))
   \<and> (list_ex is_Send (new_events w (snd (execute env cl ps w)))
    \<longrightarrow> fst (probe env cl (effective_address ps) (chosen_mode env (p_opData ps)) w) = Inr True
        \<and> is_Send (last (trace (snd (execute env cl ps w))))
        \<and> butlast (trace (snd (execute env cl ps w))) =
            trace (snd (probe env cl (effective_address ps) (chosen_mode env (p_opData ps)) w)))"
proof (intro conjI impI)
  assume h: "encodeCalls env (p_calls ps) (p_opData ps) = Inr ec
      \<and> fst (probe env cl (effective_address ps) (chosen_mode env (p_opData ps)) w) = Inr False"
  then obtain w1 where
    p: "probe env cl (effective_address ps) (chosen_mode env (p_opData ps)) w = (Inr False, w1)"
    by (cases "probe env cl (effective_address ps) (chosen_mode env (p_opData ps)) w") auto
  with h have ex: "execute env cl ps w = (Inl ExecuteUnsupportedError, w1)"
    by (simp add: execute_def Let_def)
  show "fst (execute env cl ps w) = Inl ExecuteUnsupportedError"
    using ex by simp
  have "\<not> list_ex is_Send (new_events w
      (snd (probe env cl (effective_address ps) (chosen_mode env (p_opData ps)) w)))"
    by (rule probe_no_send)
  then show "\<not> list_ex is_Send (new_events w (snd (execute env cl ps w)))"
    using ex p by simp
next
  assume s: "list_ex is_Send (new_events w (snd (execute env cl ps w)))"
  let ?pr = "probe env cl (effective_address ps) (chosen_mode env (p_opData ps)) w"
  from execute_new_events [of w env cl ps] s probe_no_send [of w env cl "effective_address ps"
      "chosen_mode env (p_opData ps)"]
  have "fst ?pr = Inr True
        \<and> (\<exists>d. trace (snd (execute env cl ps w)) =
              trace (snd ?pr) @ [Send cl \<lparr>tx_parameters = ps, tx_to = p_address ps, tx_data = d\<rparr>])"
    by auto
  then show "fst ?pr = Inr True"
    and "is_Send (last (trace (snd (execute env cl ps w))))"
    and "butlast (trace (snd (execute env cl ps w))) = trace (snd ?pr)"
    by auto
qed

theorem unsupported_mode_blocks_submission_witness:
  "encodeCalls env0 (p_calls (params0 ''0xdead'' example_calls None))
       (p_opData (params0 ''0xdead'' example_calls None)) = Inr ''0x20''
   \<and> fst (probe env0 client0 (effective_address (params0 ''0xdead'' example_calls None))
        (chosen_mode env0 (p_opData (params0 ''0xdead'' example_calls None))) world0) = Inr False
   \<and> fst (execute env0 client0 (params0 ''0xdead'' example_calls None) world0)
       = Inl ExecuteUnsupportedError
   \<and> map is_Send (trace (snd (execute env0 client0 (params0 ''0xdead'' example_calls None) world0)))
       = [False]
   \<and> list_ex is_Send
        (new_events world0 (snd (execute env0 client0 (params0 ''0xE0A'' example_calls None) world0)))
   \<and> fst (probe env0 client0 (effective_address (params0 ''0xE0A'' example_calls None))
        (chosen_mode env0 (p_opData (params0 ''0xE0A'' example_calls None))) world0) = Inr True
   \<and> map is_Send (trace (snd (execute env0 client0 (params0 ''0xE0A'' example_calls None) world0)))
       = [False, True]"
  using unsupported_mode_blocks_submission
      [of env0 "params0 ''0xdead'' example_calls None" "''0x20''" client0 world0]
    unsupported_mode_blocks_submission
      [of env0 "params0 ''0xE0A'' example_calls None" "''0x20''" client0 world0]
  by (simp add: model_defs sample_defs)

subsection \<open>The targets of probe and submission\<close>

text \<open>
  Claim C2, as the code has it. In every invocation, a capability query is made at the
  effective target (the \<^verbatim>\<open>contractAddress\<close> of the first authorization when there is
  one, the \<^verbatim>\<open>address\<close> parameter otherwise) with the chosen mode, and a transaction is
  submitted to the \<^verbatim>\<open>address\<close> parameter, with all the parameters, the authorization
  list included, passed along.
\<close>

theorem probe_and_submission_targets:
  "list_all
     (\<lambda>ev. case ev of
         Query c a m \<Rightarrow> c = cl \<and> a = effective_address ps \<and> m = chosen_mode env (p_opData ps)
       | Send c req \<Rightarrow> c = cl \<and> tx_to req = p_address ps \<and> tx_parameters req = ps)
     (new_events w (snd (execute env cl ps w)))
   \<and> effective_address ps =
       (case p_authorizationList ps of
          None \<Rightarrow> p_address ps
        | Some [] \<Rightarrow> p_address ps
        | Some (a # rest) \<Rightarrow>
            (case auth_contractAddress a of None \<Rightarrow> p_address ps | Some ca \<Rightarrow> ca))"
proof
  let ?pr = "probe env cl (effective_address ps) (chosen_mode env (p_opData ps)) w"
  let ?ok = "\<lambda>ev. case ev of
         Query c a m \<Rightarrow> c = cl \<and> a = effective_address ps \<and> m = chosen_mode env (p_opData ps)
       | Send c req \<Rightarrow> c = cl \<and> tx_to req = p_address ps \<and> tx_parameters req = ps"
  have q: "list_all ?ok (new_events w (snd ?pr))"
    by (simp add: probe_new_events split: option.splits)
  from execute_new_events [of w env cl ps]
  consider
    (probe_only) "new_events w (snd (execute env cl ps w)) = new_events w (snd ?pr)"
    | (sent) d where "trace (snd (execute env cl ps w)) =
         trace (snd ?pr) @ [Send cl \<lparr>tx_parameters = ps, tx_to = p_address ps, tx_data = d\<rparr>]"
    | (nothing) "new_events w (snd (execute env cl ps w)) = []"
    by blast
  then show "list_all ?ok (new_events w (snd (execute env cl ps w)))"
  proof cases
    case probe_only
    then show ?thesis using q by simp
  next
    case sent
    have "trace (snd ?pr) = trace w @ new_events w (snd ?pr)"
      by (simp add: probe_new_events probe_trace)
    with sent have "new_events w (snd (execute env cl ps w)) =
        new_events w (snd ?pr) @ [Send cl \<lparr>tx_parameters = ps, tx_to = p_address ps, tx_data = d\<rparr>]"
      by (rule new_events_append)
    then show ?thesis using q by simp
  next
    case nothing
    then show ?thesis by simp
  qed
next
  show "effective_address ps =
       (case p_authorizationList ps of
          None \<Rightarrow> p_address ps
        | Some [] \<Rightarrow> p_address ps
        | Some (a # rest) \<Rightarrow>
            (case auth_contractAddress a of None \<Rightarrow> p_address ps | Some ca \<Rightarrow> ca))"
    by (simp add: effective_address_def)
qed

theorem probe_and_submission_targets_witness:
  "effective_address params_auth = ''0xC0DE''
   \<and> p_address params_auth = ''0xE0A''
   \<and> new_events world0 (snd (execute env0 client0 params_auth world0)) =
       [Query client0 ''0xC0DE'' (executionMode_default env0),
        Send client0 \<lparr>tx_parameters = params_auth, tx_to = ''0xE0A'', tx_data = ''0xe9ae5c53''\<rparr>]
   \<and> list_all
       (\<lambda>ev. case ev of
           Query c a m \<Rightarrow> c = client0 \<and> a = ''0xC0DE'' \<and> m = executionMode_default env0
         | Send c req \<Rightarrow> c = client0 \<and> tx_to req = ''0xE0A'' \<and> tx_parameters req = params_auth)
       (new_events world0 (snd (execute env0 client0 params_auth world0)))"
  using probe_and_submission_targets [of client0 params_auth env0 world0]
  by (simp add: model_defs sample_defs)

text \<open>
  Claim C2 as stated fails: with an authorization list that delegates to
  \<^verbatim>\<open>0xC0DE\<close> and the address parameter \<^verbatim>\<open>0xE0A\<close>, the probe asks \<^verbatim>\<open>0xC0DE\<close>
  and the transaction goes to \<^verbatim>\<open>0xE0A\<close>.
\<close>

theorem submission_target_counterexample:
  "p_authorizationList params_auth = Some [\<lparr>auth_contractAddress = Some ''0xC0DE''\<rparr>]
   \<and> p_address params_auth = ''0xE0A''
   \<and> effective_address params_auth = ''0xC0DE''
   \<and> map query_address (trace (snd (execute env0 client0 params_auth world0)))
       = [Some ''0xC0DE'', None]
   \<and> map send_target (trace (snd (execute env0 client0 params_auth world0)))
       = [None, Some ''0xE0A'']
   \<and> fst (execute env0 client0 params_auth world0) = Inr ''0x7a11''"
  by (simp add: model_defs sample_defs)

end
